theory Spec2Isabelle
  imports Complex_Main "HOL-Library.Multiset"
begin

section \<open>JavaScript values and numbers\<close>

text \<open>
  The handlers of \<^verbatim>\<open>server.js\<close> receive \<^verbatim>\<open>amount\<close> straight from the parsed
  JSON body and use it only through coercing operators (\<^verbatim>\<open>!\<close>, \<^verbatim>\<open>isNaN\<close>,
  \<^verbatim>\<open><\<close>, \<^verbatim>\<open><=\<close>, \<^verbatim>\<open>Number\<close>). A number is NaN, an infinity or a finite
  value; finite values are exact rationals, so the rounding of IEEE doubles and the sign
  of zero are not part of the model. A string is given by its text and by the number its
  \<^verbatim>\<open>ToNumber\<close> conversion yields; arrays and objects are left out.
\<close>

datatype jsnum = NaN | NegInf | Fin rat | PosInf

datatype jsval = JUndefined | JNull | JBool bool | JNum jsnum | JStr string jsnum

fun num_neg :: "jsnum \<Rightarrow> jsnum" where
  "num_neg NaN = NaN"
| "num_neg NegInf = PosInf"
| "num_neg PosInf = NegInf"
| "num_neg (Fin a) = Fin (- a)"

fun num_add :: "jsnum \<Rightarrow> jsnum \<Rightarrow> jsnum" where
  "num_add (Fin a) (Fin b) = Fin (a + b)"
| "num_add (Fin a) PosInf = PosInf"
| "num_add (Fin a) NegInf = NegInf"
| "num_add PosInf (Fin b) = PosInf"
| "num_add PosInf PosInf = PosInf"
| "num_add NegInf (Fin b) = NegInf"
| "num_add NegInf NegInf = NegInf"
| "num_add PosInf NegInf = NaN"
| "num_add NegInf PosInf = NaN"
| "num_add NaN y = NaN"
| "num_add x NaN = NaN"

definition num_sub :: "jsnum \<Rightarrow> jsnum \<Rightarrow> jsnum" where
  "num_sub x y = num_add x (num_neg y)"

fun num_lt :: "jsnum \<Rightarrow> jsnum \<Rightarrow> bool" where
  "num_lt (Fin a) (Fin b) = (a < b)"
| "num_lt (Fin a) PosInf = True"
| "num_lt NegInf (Fin b) = True"
| "num_lt NegInf PosInf = True"
| "num_lt x y = False"

text \<open>\<^verbatim>\<open>x <= y\<close> on numbers: false when either side is NaN, otherwise \<^verbatim>\<open>!(y < x)\<close>.\<close>

definition num_le :: "jsnum \<Rightarrow> jsnum \<Rightarrow> bool" where
  "num_le x y = (x \<noteq> NaN \<and> y \<noteq> NaN \<and> \<not> num_lt y x)"

text \<open>\<^verbatim>\<open>!v\<close> is \<open>\<not> truthy v\<close>.\<close>

fun truthy :: "jsval \<Rightarrow> bool" where
  "truthy JUndefined = False"
| "truthy JNull = False"
| "truthy (JBool b) = b"
| "truthy (JNum n) = (n \<noteq> NaN \<and> n \<noteq> Fin 0)"
| "truthy (JStr s n) = (s \<noteq> [])"

text \<open>\<^verbatim>\<open>Number(v)\<close>.\<close>

fun toNumber :: "jsval \<Rightarrow> jsnum" where
  "toNumber JUndefined = NaN"
| "toNumber JNull = Fin 0"
| "toNumber (JBool b) = Fin (if b then 1 else 0)"
| "toNumber (JNum n) = n"
| "toNumber (JStr s n) = n"

definition isNaN :: "jsval \<Rightarrow> bool" where
  "isNaN v = (toNumber v = NaN)"

text \<open>
  \<^verbatim>\<open>a < b\<close> and \<^verbatim>\<open>a <= b\<close> where at most one operand is a string (the handlers
  compare a balance column or the literal 0 with \<^verbatim>\<open>amount\<close>): both sides are
  converted with \<^verbatim>\<open>ToNumber\<close>.
\<close>

definition js_lt :: "jsval \<Rightarrow> jsval \<Rightarrow> bool" where
  "js_lt a b = num_lt (toNumber a) (toNumber b)"

definition js_le :: "jsval \<Rightarrow> jsval \<Rightarrow> bool" where
  "js_le a b = num_le (toNumber a) (toNumber b)"

section \<open>The database\<close>

text \<open>
  The two tables of \<^verbatim>\<open>initDb\<close>. A \<^verbatim>\<open>REAL\<close> column holds NULL or a number;
  SQLite stores a NaN that is bound to a statement as NULL, and a NULL column comes back
  as the JavaScript value \<^verbatim>\<open>null\<close>.
\<close>

type_synonym sqlreal = "jsnum option"

definition sql_bind :: "jsnum \<Rightarrow> sqlreal" where
  "sql_bind n = (if n = NaN then None else Some n)"

fun row_val :: "sqlreal \<Rightarrow> jsval" where
  "row_val None = JNull"
| "row_val (Some n) = JNum n"

record user =
  uid :: nat
  username :: string
  password :: string
  balance :: sqlreal

datatype txtype = Deposit | Withdraw | Transfer

datatype txstatus = Committed | Rolledback

datatype dberror =
    IoFault
  | NestedBegin
  | NoTransaction
  | ConstraintFailed
  | TypeError

text \<open>
  The \<^verbatim>\<open>note\<close> column: a fixed text, the template
  \<^verbatim>\<open>`transfer ${amount} from ${fromUser.username} to ${freshToUser.username}`\<close>, or
  \<^verbatim>\<open>`error: ${err.message}`\<close>.
\<close>

datatype txnote =
    NoteText string
  | NoteTransfer jsval string string
  | NoteError dberror

record txrow =
  tid :: nat
  ttype :: txtype
  from_user :: "nat option"
  to_user :: "nat option"
  amount :: jsval
  status :: txstatus
  created_at :: nat
  tnote :: "txnote option"

record tables =
  users :: "user list"
  transactions :: "txrow list"
  tx_seq :: nat

text \<open>
  The single shared connection \<^verbatim>\<open>db\<close>. \<open>cur\<close> is what statements on the
  connection read and write; \<open>saved\<close> holds the tables as they were at
  \<^verbatim>\<open>BEGIN TRANSACTION\<close> while a transaction is open. \<open>clock\<close> is the value of
  \<^verbatim>\<open>CURRENT_TIMESTAMP\<close>. Every helper rejects when the driver reports an error
  (\<^verbatim>\<open>if (err) reject(err)\<close>): \<open>faults\<close> is the environment's schedule, one
  outcome per statement issued. A statement that fails has no effect of its own; SQLite
  may roll back the open transaction on its failure.
\<close>

datatype outcome = Runs | Fails | FailsRolledBack

record conn =
  cur :: tables
  saved :: "tables option"
  clock :: nat
  faults :: "outcome list"

text \<open>The durable tables: what a \<^verbatim>\<open>ROLLBACK\<close> would restore, or \<open>cur\<close> outside a transaction.\<close>

definition committed :: "conn \<Rightarrow> tables" where
  "committed s = (case saved s of None \<Rightarrow> cur s | Some t \<Rightarrow> t)"

type_synonym 'a io = "conn \<Rightarrow> (dberror + 'a) \<times> conn"

definition ret :: "'a \<Rightarrow> 'a io" where
  "ret x s = (Inr x, s)"

definition throw :: "dberror \<Rightarrow> 'a io" where
  "throw e s = (Inl e, s)"

text \<open>\<^verbatim>\<open>const x = await m; ...\<close>: a rejection propagates.\<close>

definition await :: "'a io \<Rightarrow> ('a \<Rightarrow> 'b io) \<Rightarrow> 'b io" where
  "await m f s = (case m s of (Inl e, s') \<Rightarrow> (Inl e, s') | (Inr x, s') \<Rightarrow> f x s')"

text \<open>The next outcome of the schedule; an exhausted schedule reports no error.\<close>

definition next_outcome :: "conn \<Rightarrow> outcome" where
  "next_outcome s = (case faults s of [] \<Rightarrow> Runs | x # xs \<Rightarrow> x)"

definition tick :: "conn \<Rightarrow> conn" where
  "tick s = s\<lparr>faults := tl (faults s)\<rparr>"

definition auto_rollback :: "conn \<Rightarrow> conn" where
  "auto_rollback s = (case saved s of None \<Rightarrow> s | Some t \<Rightarrow> s\<lparr>cur := t, saved := None\<rparr>)"

definition db_call :: "'a io \<Rightarrow> 'a io" where
  "db_call f s =
     (case next_outcome s of
        Runs \<Rightarrow> f (tick s)
      | Fails \<Rightarrow> (Inl IoFault, tick s)
      | FailsRolledBack \<Rightarrow> (Inl IoFault, auto_rollback (tick s)))"

datatype sqlcmd = BEGIN | COMMIT | ROLLBACK

fun exec_sql :: "sqlcmd \<Rightarrow> unit io" where
  "exec_sql BEGIN s =
     (case saved s of
        Some t \<Rightarrow> (Inl NestedBegin, s)
      | None \<Rightarrow> (Inr (), s\<lparr>saved := Some (cur s)\<rparr>))"
| "exec_sql COMMIT s =
     (case saved s of
        None \<Rightarrow> (Inl NoTransaction, s)
      | Some t \<Rightarrow> (Inr (), s\<lparr>saved := None\<rparr>))"
| "exec_sql ROLLBACK s =
     (case saved s of
        None \<Rightarrow> (Inl NoTransaction, s)
      | Some t \<Rightarrow> (Inr (), s\<lparr>cur := t, saved := None\<rparr>))"

definition execAsync :: "sqlcmd \<Rightarrow> unit io" where
  "execAsync c = db_call (exec_sql c)"

text \<open>\<^verbatim>\<open>SELECT * FROM users WHERE username = ?\<close> and \<^verbatim>\<open>... WHERE id = ?\<close>:
  the row, or \<^verbatim>\<open>undefined\<close>.\<close>

definition findUserByUsername :: "string \<Rightarrow> user option io" where
  "findUserByUsername name =
     db_call (\<lambda>s. (Inr (find (\<lambda>u. username u = name) (users (cur s))), s))"

definition findUserById :: "nat \<Rightarrow> user option io" where
  "findUserById i =
     db_call (\<lambda>s. (Inr (find (\<lambda>u. uid u = i) (users (cur s))), s))"

text \<open>\<^verbatim>\<open>UPDATE users SET balance = ? WHERE id = ?\<close>.\<close>

definition set_balance :: "nat \<Rightarrow> jsnum \<Rightarrow> tables \<Rightarrow> tables" where
  "set_balance i newBalance t =
     t\<lparr>users := map (\<lambda>u. if uid u = i then u\<lparr>balance := sql_bind newBalance\<rparr> else u) (users t)\<rparr>"

definition updateBalance :: "nat \<Rightarrow> jsnum \<Rightarrow> unit io" where
  "updateBalance i newBalance =
     db_call (\<lambda>s. (Inr (), s\<lparr>cur := set_balance i newBalance (cur s)\<rparr>))"

text \<open>\<^verbatim>\<open>tx.from_user || null\<close>.\<close>

fun or_null :: "nat option \<Rightarrow> nat option" where
  "or_null None = None"
| "or_null (Some i) = (if i = 0 then None else Some i)"

definition references_user :: "tables \<Rightarrow> nat option \<Rightarrow> bool" where
  "references_user t r =
     (case r of None \<Rightarrow> True | Some i \<Rightarrow> find (\<lambda>u. uid u = i) (users t) \<noteq> None)"

text \<open>A value bound to \<^verbatim>\<open>amount REAL NOT NULL\<close> is NULL when it is
  \<^verbatim>\<open>undefined\<close>, \<^verbatim>\<open>null\<close> or NaN.\<close>

fun binds_null :: "jsval \<Rightarrow> bool" where
  "binds_null JUndefined = True"
| "binds_null JNull = True"
| "binds_null (JNum n) = (n = NaN)"
| "binds_null v = False"

text \<open>
  \<^verbatim>\<open>insertTransactionRecord\<close>: the \<^verbatim>\<open>INSERT INTO transactions\<close> with the
  \<^verbatim>\<open>NOT NULL\<close> and \<^verbatim>\<open>FOREIGN KEY\<close> constraints of the schema; returns
  \<^verbatim>\<open>lastID\<close>.
\<close>

definition insertTransactionRecord ::
  "txtype \<Rightarrow> nat option \<Rightarrow> nat option \<Rightarrow> jsval \<Rightarrow> txstatus \<Rightarrow> txnote option \<Rightarrow> nat io" where
  "insertTransactionRecord ty fu tu amt st nt =
     db_call (\<lambda>s.
       let t = cur s in
       if binds_null amt \<or> \<not> references_user t (or_null fu) \<or> \<not> references_user t (or_null tu)
       then (Inl ConstraintFailed, s)
       else
         let i = Suc (tx_seq t);
             r = \<lparr>tid = i, ttype = ty, from_user = or_null fu, to_user = or_null tu,
                  amount = amt, status = st, created_at = clock s, tnote = nt\<rparr>
         in (Inr i, s\<lparr>cur := t\<lparr>transactions := transactions t @ [r], tx_seq := i\<rparr>\<rparr>))"

section \<open>Responses\<close>

text \<open>A row of \<^verbatim>\<open>GET /api/transactions\<close>: \<^verbatim>\<open>t.*\<close> with the two joined names.\<close>

record txview =
  row :: txrow
  from_username :: "string option"
  to_username :: "string option"

text \<open>\<^verbatim>\<open>res.status(code).json(body)\<close>; a plain \<^verbatim>\<open>res.json\<close> has status 200.\<close>

datatype body =
    ErrorBody string
  | BalanceBody jsnum
  | TransferBody jsnum jsnum
  | RowsBody "txview list"

type_synonym response = "nat \<times> body"

section \<open>The transactional handlers\<close>

text \<open>
  The \<^verbatim>\<open>try\<close> block of \<^verbatim>\<open>POST /api/transfer\<close>. Inside the handler the rows are
  read with \<^verbatim>\<open>getAsync('SELECT * FROM users WHERE id = ?')\<close> and written with
  \<^verbatim>\<open>runAsync('UPDATE users SET balance = ? WHERE id = ?')\<close>, the statements of
  \<open>findUserById\<close> and \<open>updateBalance\<close>. Reading \<^verbatim>\<open>freshToUser.balance\<close> of a
  missing row throws.
\<close>

definition transfer_try :: "nat \<Rightarrow> string \<Rightarrow> jsval \<Rightarrow> response io" where
  "transfer_try fromUserId toUsername amt =
     await (findUserByUsername toUsername) (\<lambda>toUser.
       case toUser of
         None \<Rightarrow> ret (404, ErrorBody ''Recipient not found'')
       | Some toUser \<Rightarrow>
           await (execAsync BEGIN) (\<lambda>_.
           await (findUserById fromUserId) (\<lambda>fromUser.
           await (findUserById (uid toUser)) (\<lambda>freshToUser.
             case fromUser of
               None \<Rightarrow>
                 await (execAsync ROLLBACK) (\<lambda>_. ret (404, ErrorBody ''Sender not found''))
             | Some fromUser \<Rightarrow>
                 if js_lt (row_val (balance fromUser)) amt then
                   await (insertTransactionRecord Transfer (Some fromUserId) (Some (uid toUser))
                            amt Rolledback (Some (NoteText ''insufficient funds''))) (\<lambda>_.
                   await (execAsync ROLLBACK) (\<lambda>_.
                   ret (400, ErrorBody ''Insufficient funds'')))
                 else
                   (case freshToUser of
                      None \<Rightarrow> throw TypeError
                    | Some freshToUser \<Rightarrow>
                        let newFromBal = num_sub (toNumber (row_val (balance fromUser))) (toNumber amt);
                            newToBal = num_add (toNumber (row_val (balance freshToUser))) (toNumber amt)
                        in
                          await (updateBalance (uid fromUser) newFromBal) (\<lambda>_.
                          await (updateBalance (uid freshToUser) newToBal) (\<lambda>_.
                          await (insertTransactionRecord Transfer (Some (uid fromUser))
                                   (Some (uid freshToUser)) amt Committed
                                   (Some (NoteTransfer amt (username fromUser) (username freshToUser)))) (\<lambda>_.
                          await (execAsync COMMIT) (\<lambda>_.
                          ret (200, TransferBody newFromBal newToBal))))))))))"

text \<open>
  \<^verbatim>\<open>POST /api/transfer\<close>: the input check, the \<^verbatim>\<open>try\<close> block, and the
  \<^verbatim>\<open>catch\<close> handler, which rolls back and then makes a best-effort insert of a
  \<^verbatim>\<open>rolledback\<close> row. \<^verbatim>\<open>toUsername\<close> is a string, or \<open>None\<close> when the body
  has none; other JSON values for it are left out.
\<close>

definition transfer :: "nat \<Rightarrow> string option \<Rightarrow> jsval \<Rightarrow> conn \<Rightarrow> response \<times> conn" where
  "transfer fromUserId toUsername amt s =
     (case toUsername of
        None \<Rightarrow> ((400, ErrorBody ''Invalid input''), s)
      | Some name \<Rightarrow>
          if name = [] \<or> \<not> truthy amt \<or> isNaN amt \<or> js_le amt (JNum (Fin 0))
          then ((400, ErrorBody ''Invalid input''), s)
          else
            (case transfer_try fromUserId name amt s of
               (Inr r, s1) \<Rightarrow> (r, s1)
             | (Inl err, s1) \<Rightarrow>
                 (case execAsync ROLLBACK s1 of
                    (Inl rbErr, s2) \<Rightarrow> ((500, ErrorBody ''Transfer failed, rolled back''), s2)
                  | (Inr _, s2) \<Rightarrow>
                      (case insertTransactionRecord Transfer (Some fromUserId) None amt Rolledback
                              (Some (NoteError err)) s2 of
                         (_, s3) \<Rightarrow> ((500, ErrorBody ''Transfer failed, rolled back''), s3)))))"

text \<open>\<^verbatim>\<open>POST /api/deposit-tx\<close>.\<close>

definition deposit_tx_try :: "nat \<Rightarrow> jsval \<Rightarrow> response io" where
  "deposit_tx_try u amt =
     await (execAsync BEGIN) (\<lambda>_.
     await (findUserById u) (\<lambda>usr.
       case usr of
         None \<Rightarrow> await (execAsync ROLLBACK) (\<lambda>_. ret (404, ErrorBody ''User not found''))
       | Some usr \<Rightarrow>
           let newBal = num_add (toNumber (row_val (balance usr))) (toNumber amt) in
             await (updateBalance u newBal) (\<lambda>_.
             await (insertTransactionRecord Deposit None (Some u) amt Committed
                      (Some (NoteText ''deposit via deposit-tx''))) (\<lambda>_.
             await (execAsync COMMIT) (\<lambda>_.
             ret (200, BalanceBody newBal))))))"

definition deposit_tx :: "nat \<Rightarrow> jsval \<Rightarrow> conn \<Rightarrow> response \<times> conn" where
  "deposit_tx u amt s =
     (if \<not> truthy amt \<or> isNaN amt \<or> js_le amt (JNum (Fin 0))
      then ((400, ErrorBody ''Invalid amount''), s)
      else
        (case deposit_tx_try u amt s of
           (Inr r, s1) \<Rightarrow> (r, s1)
         | (Inl err, s1) \<Rightarrow>
             (case execAsync ROLLBACK s1 of
                (_, s2) \<Rightarrow> ((500, ErrorBody ''Deposit failed, rolled back''), s2))))"

text \<open>\<^verbatim>\<open>POST /api/withdraw-tx\<close>.\<close>

definition withdraw_tx_try :: "nat \<Rightarrow> jsval \<Rightarrow> response io" where
  "withdraw_tx_try u amt =
     await (execAsync BEGIN) (\<lambda>_.
     await (findUserById u) (\<lambda>usr.
       case usr of
         None \<Rightarrow> await (execAsync ROLLBACK) (\<lambda>_. ret (404, ErrorBody ''User not found''))
       | Some usr \<Rightarrow>
           if js_lt (row_val (balance usr)) amt then
             await (insertTransactionRecord Withdraw (Some u) None amt Rolledback
                      (Some (NoteText ''insufficient funds for withdraw''))) (\<lambda>_.
             await (execAsync ROLLBACK) (\<lambda>_.
             ret (400, ErrorBody ''Insufficient funds'')))
           else
             let newBal = num_sub (toNumber (row_val (balance usr))) (toNumber amt) in
               await (updateBalance u newBal) (\<lambda>_.
               await (insertTransactionRecord Withdraw (Some u) None amt Committed
                        (Some (NoteText ''withdraw via withdraw-tx''))) (\<lambda>_.
               await (execAsync COMMIT) (\<lambda>_.
               ret (200, BalanceBody newBal))))))"

definition withdraw_tx :: "nat \<Rightarrow> jsval \<Rightarrow> conn \<Rightarrow> response \<times> conn" where
  "withdraw_tx u amt s =
     (if \<not> truthy amt \<or> isNaN amt \<or> js_le amt (JNum (Fin 0))
      then ((400, ErrorBody ''Invalid amount''), s)
      else
        (case withdraw_tx_try u amt s of
           (Inr r, s1) \<Rightarrow> (r, s1)
         | (Inl err, s1) \<Rightarrow>
             (case execAsync ROLLBACK s1 of
                (_, s2) \<Rightarrow> ((500, ErrorBody ''Withdraw failed, rolled back''), s2))))"

text \<open>
  \<^verbatim>\<open>GET /api/transactions?userId=\<close>. \<open>userId\<close> is the query parameter as SQLite
  compares it with the integer columns, \<open>None\<close> when it is absent or empty. The join on
  the primary key \<^verbatim>\<open>users.id\<close> finds at most one name. \<^verbatim>\<open>ORDER BY t.created_at DESC\<close>
  is a descending sort; SQL leaves the order of rows with equal timestamps open.
\<close>

definition joined_username :: "tables \<Rightarrow> nat option \<Rightarrow> string option" where
  "joined_username t r =
     (case r of
        None \<Rightarrow> None
      | Some i \<Rightarrow> map_option username (find (\<lambda>u. uid u = i) (users t)))"

definition join_users :: "tables \<Rightarrow> txrow \<Rightarrow> txview" where
  "join_users t r =
     \<lparr>row = r, from_username = joined_username t (from_user r),
      to_username = joined_username t (to_user r)\<rparr>"

definition order_by_created_at_desc :: "txrow list \<Rightarrow> txrow list" where
  "order_by_created_at_desc rows = rev (sort_key created_at rows)"

definition select_transactions :: "nat option \<Rightarrow> txview list io" where
  "select_transactions userId =
     db_call (\<lambda>s.
       let t = cur s;
           rows = (case userId of
                     None \<Rightarrow> transactions t
                   | Some i \<Rightarrow>
                       filter (\<lambda>r. from_user r = Some i \<or> to_user r = Some i) (transactions t))
       in (Inr (map (join_users t) (order_by_created_at_desc rows)), s))"

definition list_transactions :: "nat option \<Rightarrow> conn \<Rightarrow> response \<times> conn" where
  "list_transactions userId s =
     (case select_transactions userId s of
        (Inr rows, s1) \<Rightarrow> ((200, RowsBody rows), s1)
      | (Inl err, s1) \<Rightarrow> ((500, ErrorBody ''server error''), s1))"

section \<open>The handler without transactions\<close>

text \<open>
  \<^verbatim>\<open>POST /api/transfer\<close> of the JWT banking API: no \<^verbatim>\<open>isNaN\<close> check, no
  transaction and no \<^verbatim>\<open>try\<close>; a rejected statement and the read of
  \<^verbatim>\<open>fromUser.balance\<close> of a missing row leave the request without a response.
\<close>

definition transfer_jwt :: "nat \<Rightarrow> string option \<Rightarrow> jsval \<Rightarrow> response io" where
  "transfer_jwt reqUserId toUsername amt =
     (case toUsername of
        None \<Rightarrow> ret (400, ErrorBody ''Invalid input'')
      | Some name \<Rightarrow>
          if name = [] \<or> \<not> truthy amt \<or> js_le amt (JNum (Fin 0))
          then ret (400, ErrorBody ''Invalid input'')
          else
            await (findUserById reqUserId) (\<lambda>fromUser.
            await (findUserByUsername name) (\<lambda>toUser.
              case toUser of
                None \<Rightarrow> ret (404, ErrorBody ''Recipient not found'')
              | Some toUser \<Rightarrow>
                  (case fromUser of
                     None \<Rightarrow> throw TypeError
                   | Some fromUser \<Rightarrow>
                       if js_lt (row_val (balance fromUser)) amt
                       then ret (400, ErrorBody ''Insufficient funds'')
                       else
                         let newFromBal = num_sub (toNumber (row_val (balance fromUser))) (toNumber amt);
                             newToBal = num_add (toNumber (row_val (balance toUser))) (toNumber amt)
                         in
                           await (updateBalance (uid fromUser) newFromBal) (\<lambda>_.
                           await (updateBalance (uid toUser) newToBal) (\<lambda>_.
                           ret (200, TransferBody newFromBal newToBal)))))))"

section \<open>Sequences of requests\<close>

datatype request =
    TransferReq nat "string option" jsval
  | DepositReq nat jsval
  | WithdrawReq nat jsval

fun handle :: "request \<Rightarrow> conn \<Rightarrow> response \<times> conn" where
  "handle (TransferReq i name amt) s = transfer i name amt s"
| "handle (DepositReq i amt) s = deposit_tx i amt s"
| "handle (WithdrawReq i amt) s = withdraw_tx i amt s"

fun run :: "request list \<Rightarrow> conn \<Rightarrow> conn" where
  "run [] s = s"
| "run (r # rs) s = run rs (snd (handle r s))"

section \<open>Observations\<close>

text \<open>\<^verbatim>\<open>user.balance >= 0\<close> as JavaScript evaluates it on a row.\<close>

definition balance_nonneg :: "user \<Rightarrow> bool" where
  "balance_nonneg u = js_le (JNum (Fin 0)) (row_val (balance u))"

definition balances_nonneg :: "tables \<Rightarrow> bool" where
  "balances_nonneg t = list_all balance_nonneg (users t)"

text \<open>Every balance a statement can read, and every durable balance.\<close>

definition all_nonneg :: "conn \<Rightarrow> bool" where
  "all_nonneg s = (balances_nonneg (cur s) \<and> balances_nonneg (committed s))"

text \<open>A number that is stored as a balance \<^verbatim>\<open>>= 0\<close>.\<close>

definition stores_nonneg :: "jsnum \<Rightarrow> bool" where
  "stores_nonneg v = js_le (JNum (Fin 0)) (row_val (sql_bind v))"


text \<open>The records of the log in which account \<open>i\<close> is source or destination; all of them without a filter.\<close>

definition participates :: "nat option \<Rightarrow> txrow \<Rightarrow> bool" where
  "participates userId r =
     (case userId of None \<Rightarrow> True | Some i \<Rightarrow> from_user r = Some i \<or> to_user r = Some i)"

text \<open>The stored balance of account \<open>i\<close>.\<close>

definition balance_of :: "tables \<Rightarrow> nat \<Rightarrow> sqlreal option" where
  "balance_of t i = map_option balance (find (\<lambda>u. uid u = i) (users t))"

section \<open>Assertions about a block of statements\<close>

text \<open>
  \<open>triple P m Q E\<close>: started in a state with \<open>P\<close>, the block \<open>m\<close> ends with a value
  and \<open>Q\<close>, or rejects with \<open>E\<close>. Every block of this file returns, so this is total
  correctness.
\<close>

definition triple ::
  "(conn \<Rightarrow> bool) \<Rightarrow> 'a io \<Rightarrow> ('a \<Rightarrow> conn \<Rightarrow> bool) \<Rightarrow> (dberror \<Rightarrow> conn \<Rightarrow> bool) \<Rightarrow> bool" where
  "triple P m Q E =
     (\<forall>s. P s \<longrightarrow> (case m s of (Inl e, s') \<Rightarrow> E e s' | (Inr x, s') \<Rightarrow> Q x s'))"



text \<open>The demo users of \<^verbatim>\<open>initDb\<close>: alice with 1000 and bob with 500.\<close>

definition demo_users :: "user list" where
  "demo_users =
     [\<lparr>uid = 1, username = ''alice'', password = ''hash1'', balance = Some (Fin 1000)\<rparr>,
      \<lparr>uid = 2, username = ''bob'', password = ''hash2'', balance = Some (Fin 500)\<rparr>]"

definition demo_db :: conn where
  "demo_db =
     \<lparr>cur = \<lparr>users = demo_users, transactions = [], tx_seq = 0\<rparr>,
      saved = None, clock = 0, faults = []\<rparr>"

text \<open>
  The demo database after alice's transfer of 200 to bob at time 5 and her deposit of 150
  at time 9.
\<close>

definition demo_log :: "txrow list" where
  "demo_log =
     [\<lparr>tid = 1, ttype = Transfer, from_user = Some 1, to_user = Some 2, amount = JNum (Fin 200),
       status = Committed, created_at = 5,
       tnote = Some (NoteTransfer (JNum (Fin 200)) ''alice'' ''bob'')\<rparr>,
      \<lparr>tid = 2, ttype = Deposit, from_user = None, to_user = Some 1, amount = JNum (Fin 150),
       status = Committed, created_at = 9, tnote = Some (NoteText ''deposit via deposit-tx'')\<rparr>]"

definition demo_history :: conn where
  "demo_history =
     \<lparr>cur = \<lparr>users =
               [\<lparr>uid = 1, username = ''alice'', password = ''hash1'', balance = Some (Fin 950)\<rparr>,
                \<lparr>uid = 2, username = ''bob'', password = ''hash2'', balance = Some (Fin 700)\<rparr>],
             transactions = demo_log, tx_seq = 2\<rparr>,
      saved = None, clock = 12, faults = []\<rparr>"

section \<open>Basic facts\<close>

lemma tick_fields [simp]:
  "cur (tick s) = cur s" "saved (tick s) = saved s" "clock (tick s) = clock s"
  by (simp_all add: tick_def)

lemma no_faults [simp]:
  "faults s = [] \<Longrightarrow> next_outcome s = Runs" "faults s = [] \<Longrightarrow> tick s = s"
  by (simp_all add: next_outcome_def tick_def)

lemma committed_tick [simp]: "committed (tick s) = committed s"
  by (simp add: committed_def split: option.splits)

lemma committed_auto_rollback [simp]: "committed (auto_rollback s) = committed s"
  by (simp add: committed_def auto_rollback_def split: option.splits)

lemma saved_auto_rollback [simp]: "saved (auto_rollback s) = None"
  by (simp add: auto_rollback_def split: option.splits)

lemma cur_auto_rollback [simp]: "cur (auto_rollback s) = committed s"
  by (simp add: auto_rollback_def committed_def split: option.splits)

lemmas io_defs = ret_def throw_def await_def db_call_def execAsync_def findUserByUsername_def
  findUserById_def updateBalance_def insertTransactionRecord_def

lemmas js_defs = js_lt_def js_le_def isNaN_def num_le_def num_sub_def sql_bind_def

lemmas demo_defs = demo_db_def demo_users_def demo_history_def demo_log_def

lemma find_map_uid:
  "(\<And>u. uid (f u) = uid u) \<Longrightarrow>
   find (\<lambda>u. uid u = i) (map f us) = map_option f (find (\<lambda>u. uid u = i) us)"
  by (induction us) simp_all

lemma find_set_balance:
  "find (\<lambda>u. uid u = i) (users (set_balance j v t)) =
   map_option (\<lambda>u. if uid u = j then u\<lparr>balance := sql_bind v\<rparr> else u)
     (find (\<lambda>u. uid u = i) (users t))"
  unfolding set_balance_def by (simp add: find_map_uid)

lemma set_balance_fields [simp]:
  "transactions (set_balance j v t) = transactions t" "tx_seq (set_balance j v t) = tx_seq t"
  by (simp_all add: set_balance_def)

lemma find_uid_SomeD: "find (\<lambda>u. uid u = i) us = Some a \<Longrightarrow> uid a = i"
  by (induction us) (auto split: if_splits)

lemma references_user_None [simp]: "references_user t None"
  by (simp add: references_user_def)

lemma references_user_set_balance [simp]:
  "references_user (set_balance j v t) r = references_user t r"
  by (cases r) (simp_all add: references_user_def find_set_balance)

lemma truthy_binds: "truthy amt \<Longrightarrow> \<not> binds_null amt"
  by (cases amt) simp_all

section \<open>Rules for blocks\<close>

lemma triple_ret: "(\<And>s. P s \<Longrightarrow> Q x s) \<Longrightarrow> triple P (ret x) Q E"
  by (simp add: triple_def ret_def)

lemma triple_throw: "(\<And>s. P s \<Longrightarrow> E e s) \<Longrightarrow> triple P (throw e) Q E"
  by (simp add: triple_def throw_def)

lemma triple_await:
  assumes "triple P m R E" and "\<And>x. triple (R x) (f x) Q E"
  shows "triple P (await m f) Q E"
  unfolding triple_def await_def
proof (intro allI impI)
  fix s assume "P s"
  with assms(1) have m: "case m s of (Inl e, s') \<Rightarrow> E e s' | (Inr x, s') \<Rightarrow> R x s'"
    by (simp add: triple_def)
  show "case (case m s of (Inl e, s') \<Rightarrow> (Inl e, s') | (Inr x, s') \<Rightarrow> f x s') of
          (Inl e, s') \<Rightarrow> E e s' | (Inr x, s') \<Rightarrow> Q x s'"
  proof (cases "m s")
    case (Pair r s1)
    show ?thesis
    proof (cases r)
      case (Inl e)
      with Pair m show ?thesis by simp
    next
      case (Inr x)
      with Pair m have "R x s1" by simp
      with assms(2)[of x] have "case f x s1 of (Inl e, s') \<Rightarrow> E e s' | (Inr y, s') \<Rightarrow> Q y s'"
        by (simp add: triple_def)
      with Pair Inr show ?thesis by simp
    qed
  qed
qed

lemma triple_if:
  "(c \<Longrightarrow> triple P a Q E) \<Longrightarrow> (\<not> c \<Longrightarrow> triple P b Q E) \<Longrightarrow>
   triple P (if c then a else b) Q E"
  by simp

lemma triple_option:
  "(x = None \<Longrightarrow> triple P a Q E) \<Longrightarrow> (\<And>y. x = Some y \<Longrightarrow> triple P (b y) Q E) \<Longrightarrow>
   triple P (case_option a b x) Q E"
  by (cases x) simp_all

lemma triple_pure: "(C \<Longrightarrow> triple P m Q E) \<Longrightarrow> triple (\<lambda>s. C \<and> P s) m Q E"
  by (simp add: triple_def)

lemma tripleD:
  "triple P m Q E \<Longrightarrow> P s \<Longrightarrow> m s = (r, s') \<Longrightarrow>
     (case r of Inl e \<Rightarrow> E e s' | Inr x \<Rightarrow> Q x s')"
  by (auto simp: triple_def split: sum.splits)

lemma triple_state:
  assumes "triple P m (\<lambda>_. I) (\<lambda>_. I)" and "P s"
  shows "I (snd (m s))"
proof -
  obtain r s' where m: "m s = (r, s')"
    by (cases "m s")
  from tripleD[OF assms m] m show ?thesis
    by (cases r) simp_all
qed

lemmas block_rules = triple_pure triple_await triple_if triple_option triple_ret triple_throw

section \<open>Statements and the durable tables\<close>















section \<open>A rejected request and the durable tables\<close>




section \<open>Non-negative balances\<close>

lemma valid_amount_positive:
  "truthy amt \<Longrightarrow> \<not> isNaN amt \<Longrightarrow> \<not> js_le amt (JNum (Fin 0)) \<Longrightarrow> num_lt (Fin 0) (toNumber amt)"
  by (cases "toNumber amt") (auto simp: js_defs)

lemma credit_nonneg:
  "balance_nonneg u \<Longrightarrow> num_lt (Fin 0) a \<Longrightarrow>
   stores_nonneg (num_add (toNumber (row_val (balance u))) a)"
  by (cases "balance u"; cases a; (cases "the (balance u)")?)
     (auto simp: balance_nonneg_def stores_nonneg_def js_defs)

lemma debit_nonneg:
  "balance_nonneg u \<Longrightarrow> num_lt (Fin 0) (toNumber amt) \<Longrightarrow> \<not> js_lt (row_val (balance u)) amt \<Longrightarrow>
   stores_nonneg (num_sub (toNumber (row_val (balance u))) (toNumber amt))"
  by (cases "balance u"; cases "toNumber amt"; (cases "the (balance u)")?)
     (auto simp: balance_nonneg_def stores_nonneg_def js_defs)

lemma set_balance_nonneg:
  "stores_nonneg v \<Longrightarrow> balances_nonneg t \<Longrightarrow> balances_nonneg (set_balance i v t)"
  by (auto simp: balances_nonneg_def set_balance_def list_all_iff balance_nonneg_def
        stores_nonneg_def)

lemma find_nonneg:
  "balances_nonneg t \<Longrightarrow> find P (users t) = Some u \<Longrightarrow> balance_nonneg u"
  by (auto simp: balances_nonneg_def list_all_iff find_Some_iff)

lemma all_nonneg_tick [simp]: "all_nonneg (tick s) = all_nonneg s"
  by (simp add: all_nonneg_def)

lemma execAsync_nonneg:
  "triple all_nonneg (execAsync c) (\<lambda>_. all_nonneg) (\<lambda>_. all_nonneg)"
  by (cases c) (auto simp: triple_def io_defs all_nonneg_def committed_def split: option.splits outcome.splits)

lemma findUserById_nonneg:
  "triple all_nonneg (findUserById i)
     (\<lambda>x s. (\<forall>u. x = Some u \<longrightarrow> balance_nonneg u) \<and> all_nonneg s) (\<lambda>_. all_nonneg)"
  by (auto simp: triple_def io_defs all_nonneg_def dest: find_nonneg
        split: outcome.splits)

lemma findUserByUsername_nonneg:
  "triple all_nonneg (findUserByUsername n)
     (\<lambda>x s. (\<forall>u. x = Some u \<longrightarrow> balance_nonneg u) \<and> all_nonneg s) (\<lambda>_. all_nonneg)"
  by (auto simp: triple_def io_defs all_nonneg_def dest: find_nonneg
        split: outcome.splits)

lemma updateBalance_nonneg:
  "stores_nonneg v \<Longrightarrow> triple all_nonneg (updateBalance i v) (\<lambda>_. all_nonneg) (\<lambda>_. all_nonneg)"
  by (auto simp: triple_def io_defs all_nonneg_def committed_def set_balance_nonneg
        split: option.splits outcome.splits)

lemma insert_nonneg:
  "triple all_nonneg (insertTransactionRecord ty fu tu amt st nt) (\<lambda>_. all_nonneg) (\<lambda>_. all_nonneg)"
  by (auto simp: triple_def io_defs all_nonneg_def committed_def Let_def balances_nonneg_def
        split: option.splits outcome.splits)

lemmas nonneg_rules = block_rules
  execAsync_nonneg findUserById_nonneg findUserByUsername_nonneg updateBalance_nonneg insert_nonneg

lemma deposit_tx_try_nonneg:
  assumes "num_lt (Fin 0) (toNumber amt)"
  shows "triple all_nonneg (deposit_tx_try u amt) (\<lambda>_. all_nonneg) (\<lambda>_. all_nonneg)"
  unfolding deposit_tx_try_def Let_def
  by (insert assms, (rule nonneg_rules | simp add: credit_nonneg)+)

lemma withdraw_tx_try_nonneg:
  assumes "num_lt (Fin 0) (toNumber amt)"
  shows "triple all_nonneg (withdraw_tx_try u amt) (\<lambda>_. all_nonneg) (\<lambda>_. all_nonneg)"
  unfolding withdraw_tx_try_def Let_def
  by (insert assms, (rule nonneg_rules | simp add: debit_nonneg)+)

lemma transfer_try_nonneg:
  assumes "num_lt (Fin 0) (toNumber amt)"
  shows "triple all_nonneg (transfer_try u n amt) (\<lambda>_. all_nonneg) (\<lambda>_. all_nonneg)"
  unfolding transfer_try_def Let_def
  by (insert assms, (rule nonneg_rules | simp add: debit_nonneg credit_nonneg)+)


section \<open>The handlers and non-negative balances\<close>

lemma deposit_tx_nonneg:
  assumes "all_nonneg s"
  shows "all_nonneg (snd (deposit_tx u amt s))"
proof (cases "\<not> truthy amt \<or> isNaN amt \<or> js_le amt (JNum (Fin 0))")
  case True
  with assms show ?thesis by (simp add: deposit_tx_def)
next
  case False
  then have pos: "num_lt (Fin 0) (toNumber amt)" by (simp add: valid_amount_positive)
  obtain r s1 where t: "deposit_tx_try u amt s = (r, s1)"
    by (cases "deposit_tx_try u amt s")
  have s1: "all_nonneg s1"
    using triple_state[OF deposit_tx_try_nonneg[OF pos] assms, of u] t by simp
  obtain r2 s2 where rb: "execAsync ROLLBACK s1 = (r2, s2)"
    by (cases "execAsync ROLLBACK s1")
  have s2: "all_nonneg s2"
    using triple_state[OF execAsync_nonneg s1, of ROLLBACK] rb by simp
  from False t rb s1 s2 show ?thesis
    by (cases r) (simp_all add: deposit_tx_def)
qed

lemma withdraw_tx_nonneg:
  assumes "all_nonneg s"
  shows "all_nonneg (snd (withdraw_tx u amt s))"
proof (cases "\<not> truthy amt \<or> isNaN amt \<or> js_le amt (JNum (Fin 0))")
  case True
  with assms show ?thesis by (simp add: withdraw_tx_def)
next
  case False
  then have pos: "num_lt (Fin 0) (toNumber amt)" by (simp add: valid_amount_positive)
  obtain r s1 where t: "withdraw_tx_try u amt s = (r, s1)"
    by (cases "withdraw_tx_try u amt s")
  have s1: "all_nonneg s1"
    using triple_state[OF withdraw_tx_try_nonneg[OF pos] assms, of u] t by simp
  obtain r2 s2 where rb: "execAsync ROLLBACK s1 = (r2, s2)"
    by (cases "execAsync ROLLBACK s1")
  have s2: "all_nonneg s2"
    using triple_state[OF execAsync_nonneg s1, of ROLLBACK] rb by simp
  from False t rb s1 s2 show ?thesis
    by (cases r) (simp_all add: withdraw_tx_def)
qed

lemma transfer_nonneg:
  assumes "all_nonneg s"
  shows "all_nonneg (snd (transfer u name amt s))"
proof (cases name)
  case None
  with assms show ?thesis by (simp add: transfer_def)
next
  case (Some n)
  show ?thesis
  proof (cases "n = [] \<or> \<not> truthy amt \<or> isNaN amt \<or> js_le amt (JNum (Fin 0))")
    case True
    with Some assms show ?thesis by (simp add: transfer_def)
  next
    case False
    then have pos: "num_lt (Fin 0) (toNumber amt)" by (simp add: valid_amount_positive)
    obtain r s1 where t: "transfer_try u n amt s = (r, s1)"
      by (cases "transfer_try u n amt s")
    have s1: "all_nonneg s1"
      using triple_state[OF transfer_try_nonneg[OF pos] assms, of u n] t by simp
    obtain r2 s2 where rb: "execAsync ROLLBACK s1 = (r2, s2)"
      by (cases "execAsync ROLLBACK s1")
    have s2: "all_nonneg s2"
      using triple_state[OF execAsync_nonneg s1, of ROLLBACK] rb by simp
    have s3: "all_nonneg s3"
      if "insertTransactionRecord Transfer (Some u) None amt Rolledback nt s2 = (r3, s3)"
      for nt r3 s3
      using triple_state[OF insert_nonneg s2, of Transfer "Some u" None amt Rolledback nt] that
      by simp
    from Some False t rb s1 s2 s3 show ?thesis
      by (cases r; cases r2) (auto simp add: transfer_def split: prod.splits)
  qed
qed

lemma handle_nonneg: "all_nonneg s \<Longrightarrow> all_nonneg (snd (handle req s))"
  by (cases req) (simp_all add: transfer_nonneg deposit_tx_nonneg withdraw_tx_nonneg)

section \<open>The claims\<close>

text \<open>
  C1. Every call that reaches the sufficiency check persists exactly one record; an
  insufficient-funds rejection leaves exactly one persisted \<^verbatim>\<open>rolledback\<close> record.
  The handlers insert that record inside the transaction and then issue \<^verbatim>\<open>ROLLBACK\<close>,
  which discards it: with no transaction open and no failing statement, a transfer or a
  withdrawal of more than the balance is answered with 400 and leaves the connection,
  log included, exactly as it was.
\<close>

theorem insufficient_funds_leaves_no_record:
  assumes "saved s = None" and "faults s = []"
    and "find (\<lambda>u. uid u = i) (users (cur s)) = Some f"
    and "truthy amt" and "\<not> isNaN amt" and "\<not> js_le amt (JNum (Fin 0))"
    and "js_lt (row_val (balance f)) amt"
  shows "withdraw_tx i amt s = ((400, ErrorBody ''Insufficient funds''), s)
    \<and> (name \<noteq> [] \<and> find (\<lambda>u. username u = name) (users (cur s)) \<noteq> None \<longrightarrow>
          transfer i (Some name) amt s = ((400, ErrorBody ''Insufficient funds''), s))"
proof -
  have s: "s\<lparr>cur := cur s, saved := None\<rparr> = s"
    using assms(1) by (cases s) simp
  have ref: "references_user (cur s) (or_null (Some i))"
    using assms(3) by (simp add: references_user_def)
  have w: "withdraw_tx i amt s = ((400, ErrorBody ''Insufficient funds''), s)"
    using assms s ref
    by (simp add: withdraw_tx_def withdraw_tx_try_def io_defs Let_def truthy_binds)
  have t: "transfer i (Some name) amt s = ((400, ErrorBody ''Insufficient funds''), s)"
    if "name \<noteq> []" and d: "find (\<lambda>u. username u = name) (users (cur s)) = Some d" for d
  proof -
    from d have "d \<in> set (users (cur s))"
      by (auto simp: find_Some_iff)
    then have "find (\<lambda>u. uid u = uid d) (users (cur s)) \<noteq> None"
      by (auto simp: find_None_iff)
    then have "references_user (cur s) (or_null (Some (uid d)))"
      by (simp add: references_user_def)
    with assms s ref that show ?thesis
      by (simp add: transfer_def transfer_try_def io_defs Let_def truthy_binds)
  qed
  from w t show ?thesis by auto
qed

text \<open>
  On the demo database alice, who has 1000, withdraws 2000 and transfers 5000 to bob:
  both calls are answered with 400 and the log stays empty.
\<close>

theorem insufficient_funds_leaves_no_record_witness:
  "withdraw_tx 1 (JNum (Fin 2000)) demo_db = ((400, ErrorBody ''Insufficient funds''), demo_db)
   \<and> transfer 1 (Some ''bob'') (JNum (Fin 5000)) demo_db
       = ((400, ErrorBody ''Insufficient funds''), demo_db)
   \<and> transactions (cur demo_db) = []"
proof -
  let ?a = "\<lparr>uid = 1, username = ''alice'', password = ''hash1'', balance = Some (Fin 1000)\<rparr>"
  have h: "saved demo_db = None" "faults demo_db = []"
    "find (\<lambda>u. uid u = 1) (users (cur demo_db)) = Some ?a"
    by (simp_all add: demo_defs)
  have a2: "truthy (JNum (Fin 2000))" "\<not> isNaN (JNum (Fin 2000))"
    "\<not> js_le (JNum (Fin 2000)) (JNum (Fin 0))" "js_lt (row_val (balance ?a)) (JNum (Fin 2000))"
    by (simp_all add: js_defs)
  have a5: "truthy (JNum (Fin 5000))" "\<not> isNaN (JNum (Fin 5000))"
    "\<not> js_le (JNum (Fin 5000)) (JNum (Fin 0))" "js_lt (row_val (balance ?a)) (JNum (Fin 5000))"
    by (simp_all add: js_defs)
  have b: "''bob'' \<noteq> [] \<and> find (\<lambda>u. username u = ''bob'') (users (cur demo_db)) \<noteq> None"
    by (simp add: demo_defs)
  from insufficient_funds_leaves_no_record[OF h a2, of "''bob''"]
       insufficient_funds_leaves_no_record[OF h a5, of "''bob''"] b
  show ?thesis by (simp add: demo_defs)
qed

text \<open>
  C2. A successful transfer leaves the sum of the two participants' balances unchanged.
  When alice, who has 1000, transfers 200 to herself, the response reports 800 and 1200,
  her stored balance becomes 1200 and bob's stays at 500; in the transactional handler
  and in the handler without transactions.
\<close>

theorem self_transfer_creates_money:
  "fst (transfer 1 (Some ''alice'') (JNum (Fin 200)) demo_db)
     = (200, TransferBody (Fin 800) (Fin 1200))
   \<and> map balance (users (cur demo_db)) = [Some (Fin 1000), Some (Fin 500)]
   \<and> map balance (users (cur (snd (transfer 1 (Some ''alice'') (JNum (Fin 200)) demo_db))))
       = [Some (Fin 1200), Some (Fin 500)]
   \<and> fst (transfer_jwt 1 (Some ''alice'') (JNum (Fin 200)) demo_db)
       = Inr (200, TransferBody (Fin 800) (Fin 1200))
   \<and> map balance (users (cur (snd (transfer_jwt 1 (Some ''alice'') (JNum (Fin 200)) demo_db))))
       = [Some (Fin 1200), Some (Fin 500)]"
  by (simp add: transfer_def transfer_try_def transfer_jwt_def io_defs js_defs
       set_balance_def references_user_def demo_defs Let_def)

theorem self_transfer_creates_money_witness:
  "map balance (users (cur (snd (transfer 1 (Some ''alice'') (JNum (Fin 200)) demo_db))))
     \<noteq> map balance (users (cur demo_db))
   \<and> map balance (users (cur (snd (transfer_jwt 1 (Some ''alice'') (JNum (Fin 200)) demo_db))))
     \<noteq> map balance (users (cur demo_db))"
  using self_transfer_creates_money by simp

text \<open>
  Between two different accounts the sum is kept: the source ends with \<open>a - m\<close> and
  the destination with \<open>b + m\<close>.
\<close>

lemma transfer_between_accounts:
  assumes "saved s = None" and "faults s = []" and "name \<noteq> []"
    and "find (\<lambda>u. username u = name) (users (cur s)) = Some d"
    and "find (\<lambda>u. uid u = uid d) (users (cur s)) = Some d"
    and "find (\<lambda>u. uid u = i) (users (cur s)) = Some f"
    and "uid d \<noteq> i"
    and "balance f = Some (Fin a)" and "balance d = Some (Fin b)"
    and "truthy amt" and "toNumber amt = Fin m" and "0 < m" and "m \<le> a"
  shows "fst (transfer i (Some name) amt s) = (200, TransferBody (Fin (a - m)) (Fin (b + m)))
    \<and> balance_of (cur (snd (transfer i (Some name) amt s))) i = Some (Some (Fin (a - m)))
    \<and> balance_of (cur (snd (transfer i (Some name) amt s))) (uid d) = Some (Some (Fin (b + m)))
    \<and> fst (transfer_jwt i (Some name) amt s)
        = Inr (200, TransferBody (Fin (a - m)) (Fin (b + m)))
    \<and> balance_of (cur (snd (transfer_jwt i (Some name) amt s))) i = Some (Some (Fin (a - m)))
    \<and> balance_of (cur (snd (transfer_jwt i (Some name) amt s))) (uid d)
        = Some (Some (Fin (b + m)))"
proof -
  have i: "uid f = i" using assms(6) by (rule find_uid_SomeD)
  have ref: "references_user (cur s) (or_null (Some i))"
    "references_user (cur s) (or_null (Some (uid d)))"
    using assms(5,6) by (simp_all add: references_user_def)
  show ?thesis
    using assms i ref
    by (simp add: transfer_def transfer_try_def transfer_jwt_def io_defs js_defs Let_def
          find_set_balance balance_of_def truthy_binds)
qed





text \<open>
  C5. Starting from non-negative balances, no sequence of deposit, withdraw and transfer
  requests makes a balance negative: \<^verbatim>\<open>balance >= 0\<close> holds for every row a statement can
  read and for every durable row, after every request, whatever the amounts and whichever
  statements fail. A balance that SQLite holds as NULL compares as 0.
\<close>

theorem balances_stay_nonneg:
  assumes "all_nonneg s"
  shows "all_nonneg (run reqs s)"
  using assms
proof (induction reqs arbitrary: s)
  case Nil
  then show ?case by simp
next
  case (Cons r rs)
  from Cons.prems have "all_nonneg (snd (handle r s))"
    by (rule handle_nonneg)
  then have "all_nonneg (run rs (snd (handle r s)))"
    by (rule Cons.IH)
  then show ?case by simp
qed

text \<open>
  On the demo database: alice deposits \<open>Infinity\<close> and withdraws it again, which
  leaves her balance NULL; bob withdraws 2000, which is refused, and then transfers his
  500 to alice.
\<close>

theorem balances_stay_nonneg_witness:
  "all_nonneg demo_db
   \<and> all_nonneg (run [DepositReq 1 (JNum PosInf), WithdrawReq 1 (JNum PosInf),
                       WithdrawReq 2 (JNum (Fin 2000)),
                       TransferReq 2 (Some ''alice'') (JNum (Fin 500))] demo_db)
   \<and> map balance (users (cur (run [DepositReq 1 (JNum PosInf), WithdrawReq 1 (JNum PosInf),
                       WithdrawReq 2 (JNum (Fin 2000)),
                       TransferReq 2 (Some ''alice'') (JNum (Fin 500))] demo_db)))
       = [Some (Fin 500), Some (Fin 0)]"
proof -
  have h: "all_nonneg demo_db"
    by (simp add: all_nonneg_def balances_nonneg_def balance_nonneg_def committed_def js_defs
          demo_defs)
  have b: "map balance (users (cur (run [DepositReq 1 (JNum PosInf), WithdrawReq 1 (JNum PosInf),
                       WithdrawReq 2 (JNum (Fin 2000)),
                       TransferReq 2 (Some ''alice'') (JNum (Fin 500))] demo_db)))
       = [Some (Fin 500), Some (Fin 0)]"
    by (simp add: transfer_def transfer_try_def deposit_tx_def deposit_tx_try_def
          withdraw_tx_def withdraw_tx_try_def io_defs js_defs set_balance_def
          references_user_def demo_defs Let_def)
  from balances_stay_nonneg[OF h, of "[DepositReq 1 (JNum PosInf), WithdrawReq 1 (JNum PosInf),
         WithdrawReq 2 (JNum (Fin 2000)), TransferReq 2 (Some ''alice'') (JNum (Fin 500))]"] h b
  show ?thesis by simp
qed






text \<open>
  C8. With an amount (and a destination name) that passes the input check, no transaction
  open and no failing statement: a deposit or withdrawal for an account that does not
  exist, and a transfer whose destination or whose source does not exist, are answered
  with 404 and leave the connection exactly as it was, so the transaction that was
  opened has been rolled back, no balance has changed and no record has been written.
\<close>

theorem not_found_changes_nothing:
  assumes "saved s = None" and "faults s = []"
    and "truthy amt" and "\<not> isNaN amt" and "\<not> js_le amt (JNum (Fin 0))"
  shows "(find (\<lambda>u. uid u = i) (users (cur s)) = None \<longrightarrow>
            deposit_tx i amt s = ((404, ErrorBody ''User not found''), s)
          \<and> withdraw_tx i amt s = ((404, ErrorBody ''User not found''), s))
    \<and> (name \<noteq> [] \<and> find (\<lambda>u. username u = name) (users (cur s)) = None \<longrightarrow>
            transfer i (Some name) amt s = ((404, ErrorBody ''Recipient not found''), s))
    \<and> (name \<noteq> [] \<and> find (\<lambda>u. username u = name) (users (cur s)) \<noteq> None
          \<and> find (\<lambda>u. uid u = i) (users (cur s)) = None \<longrightarrow>
            transfer i (Some name) amt s = ((404, ErrorBody ''Sender not found''), s))"
proof -
  have s: "s\<lparr>saved := None\<rparr> = s" using assms(1) by (cases s) simp
  show ?thesis
    using assms s
    by (auto simp add: transfer_def transfer_try_def deposit_tx_def deposit_tx_try_def
          withdraw_tx_def withdraw_tx_try_def io_defs Let_def)
qed

theorem not_found_changes_nothing_witness:
  "deposit_tx 7 (JNum (Fin 10)) demo_db = ((404, ErrorBody ''User not found''), demo_db)
   \<and> withdraw_tx 7 (JNum (Fin 10)) demo_db = ((404, ErrorBody ''User not found''), demo_db)
   \<and> transfer 1 (Some ''carol'') (JNum (Fin 10)) demo_db
       = ((404, ErrorBody ''Recipient not found''), demo_db)
   \<and> transfer 7 (Some ''bob'') (JNum (Fin 10)) demo_db
       = ((404, ErrorBody ''Sender not found''), demo_db)"
proof -
  have h: "saved demo_db = None" "faults demo_db = []"
    "truthy (JNum (Fin 10))" "\<not> isNaN (JNum (Fin 10))" "\<not> js_le (JNum (Fin 10)) (JNum (Fin 0))"
    by (simp_all add: demo_defs js_defs)
  have u: "find (\<lambda>u. uid u = 7) (users (cur demo_db)) = None"
    "find (\<lambda>u. username u = ''carol'') (users (cur demo_db)) = None"
    "find (\<lambda>u. username u = ''bob'') (users (cur demo_db)) \<noteq> None"
    by (simp_all add: demo_defs)
  from not_found_changes_nothing[OF h, of 1 "''carol''"]
       not_found_changes_nothing[OF h, of 7 "''bob''"] u
  show ?thesis by simp
qed

text \<open>
  C9. With no failing statement, \<^verbatim>\<open>GET /api/transactions\<close> answers 200 with rows that are
  exactly the records of the log in which the given account is source or destination
  (every record without a filter), in descending order of \<^verbatim>\<open>created_at\<close>, each with the
  names of its source and destination accounts; nothing is written.
\<close>

theorem list_transactions_rows:
  assumes "faults s = []"
  shows "\<exists>rows. list_transactions userId s = ((200, RowsBody rows), s)
    \<and> mset (map row rows) = mset (filter (participates userId) (transactions (cur s)))
    \<and> sorted (rev (map (\<lambda>v. created_at (row v)) rows))
    \<and> map from_username rows = map (\<lambda>v. joined_username (cur s) (from_user (row v))) rows
    \<and> map to_username rows = map (\<lambda>v. joined_username (cur s) (to_user (row v))) rows"
proof -
  define xs where "xs = filter (participates userId) (transactions (cur s))"
  define rows where "rows = map (join_users (cur s)) (order_by_created_at_desc xs)"
  have res: "list_transactions userId s = ((200, RowsBody rows), s)"
    using assms
    by (cases userId)
       (simp_all add: list_transactions_def select_transactions_def db_call_def Let_def
          rows_def xs_def participates_def [abs_def])
  have unjoin: "map row rows = order_by_created_at_desc xs"
    by (simp add: rows_def join_users_def comp_def)
  have m: "mset (map row rows) = mset xs"
    by (simp add: unjoin order_by_created_at_desc_def)
  have "map (\<lambda>v. created_at (row v)) rows = map created_at (map row rows)"
    by (simp add: comp_def)
  then have o: "sorted (rev (map (\<lambda>v. created_at (row v)) rows))"
    by (simp add: unjoin order_by_created_at_desc_def rev_map [symmetric])
  have n: "map from_username rows = map (\<lambda>v. joined_username (cur s) (from_user (row v))) rows"
    "map to_username rows = map (\<lambda>v. joined_username (cur s) (to_user (row v))) rows"
    by (simp_all add: rows_def join_users_def)
  from res m o n show ?thesis
    unfolding xs_def by blast
qed

text \<open>
  On the demo log (a transfer from alice to bob at time 5, a deposit to alice at time 9)
  the rows for bob are the transfer alone, and the rows for alice are the deposit and
  then the transfer.
\<close>

theorem list_transactions_rows_witness:
  "faults demo_history = []
   \<and> fst (list_transactions (Some 2) demo_history)
       = (200, RowsBody [\<lparr>row = demo_log ! 0, from_username = Some ''alice'',
                          to_username = Some ''bob''\<rparr>])
   \<and> fst (list_transactions (Some 1) demo_history)
       = (200, RowsBody [\<lparr>row = demo_log ! 1, from_username = None,
                          to_username = Some ''alice''\<rparr>,
                         \<lparr>row = demo_log ! 0, from_username = Some ''alice'',
                          to_username = Some ''bob''\<rparr>])"
proof -
  have h: "faults demo_history = []"
    by (simp add: demo_defs)
  have r2: "fst (list_transactions (Some 2) demo_history)
       = (200, RowsBody [\<lparr>row = demo_log ! 0, from_username = Some ''alice'',
                          to_username = Some ''bob''\<rparr>])"
    by (simp add: list_transactions_def select_transactions_def db_call_def Let_def
          order_by_created_at_desc_def join_users_def joined_username_def demo_defs)
  have r1: "fst (list_transactions (Some 1) demo_history)
       = (200, RowsBody [\<lparr>row = demo_log ! 1, from_username = None,
                          to_username = Some ''alice''\<rparr>,
                         \<lparr>row = demo_log ! 0, from_username = Some ''alice'',
                          to_username = Some ''bob''\<rparr>])"
    by (simp add: list_transactions_def select_transactions_def db_call_def Let_def
          order_by_created_at_desc_def join_users_def joined_username_def demo_defs)
  from list_transactions_rows[OF h, of "Some 1"] h r1 r2 show ?thesis
    by simp
qed

end
